theory Spec2Isabelle
  imports Main "HOL-Library.Sublist"
begin

section \<open>The system configuration syncer of the multiarch operator\<close>

text \<open>
  The Go package \<^verbatim>\<open>system_config\<close> keeps a process-wide model of the registry
  configuration (\<^verbatim>\<open>registries.conf\<close>, \<^verbatim>\<open>policy.json\<close>, the certificate tuples),
  mutates it through five exported methods of \<^verbatim>\<open>SystemConfigSyncer\<close> and writes it
  to disk in \<^verbatim>\<open>sync\<close>.

  Each operation, and each pass of the worker, is one step of the embedding, as the
  mutex makes it. What Go does by reference, and where a call may not return, is written out:
  \<^item> a \<^verbatim>\<open>*registryConf\<close> is a reference into an explicit heap of \<^verbatim>\<open>registryConf\<close>
    values; allocation takes the next free reference;
  \<^item> a Go map is a reference type, so a write through a copied struct is seen by the
    caller; a write into a nil map panics. The field \<^verbatim>\<open>registriesMap\<close> is therefore
    an \<open>option\<close>: \<open>None\<close> is the nil map;
  \<^item> a method with a value receiver works on a copy of the struct: an assignment to
    one of the copy's fields is lost when the method returns;
  \<^item> a panic is a result of its own, next to the \<^verbatim>\<open>error\<close> a method returns;
  \<^item> the send on the unbuffered channel either is taken by the worker or never
    completes, depending on where the worker is; a call whose send never completes
    has a result of its own as well.
\<close>

subsection \<open>Results\<close>

text \<open>
  \<open>Success\<close> is \<^verbatim>\<open>return nil\<close>, \<open>Failure msg\<close> is \<^verbatim>\<open>return fmt.Errorf(msg)\<close>,
  \<open>Panic msg\<close> is a run-time panic that leaves the method without a return value,
  \<open>Deadlock\<close> is a call that never returns: it waits forever in the send on the channel.
\<close>

datatype result = Success | Failure string | Panic string | Deadlock

text \<open>The two errors the package builds; the specification calls them InvalidArgument and NotFound.\<close>

definition InvalidArgument :: string where
  "InvalidArgument =
     ''only one of allowedRegistries and blockedRegistries can be set. Ignoring this event''"

definition NotFound :: "string \<Rightarrow> string" where
  "NotFound reg = ''registry '' @ reg @ '' not found''"

definition nil_map_panic :: string where
  "nil_map_panic = ''assignment to entry in nil map''"

subsection \<open>Constants\<close>

definition RegistriesConfPath :: string where
  "RegistriesConfPath = ''/tmp/containers/registries.conf''"

definition PolicyConfPath :: string where
  "PolicyConfPath = ''/tmp/containers/policy.json''"

definition DockerCertsDir :: string where
  "DockerCertsDir = ''/tmp/docker/certs.d''"

definition dockerDaemonTransport :: string where
  "dockerDaemonTransport = ''docker-daemon''"

definition dockerTransport :: string where
  "dockerTransport = ''docker''"

definition atomicTransport :: string where
  "atomicTransport = ''atomic''"

subsection \<open>Data model\<close>

type_synonym ref = nat

record registryCertTuple =
  registry :: string
  cert :: string

text \<open>
  \<^verbatim>\<open>Blocked\<close>, \<^verbatim>\<open>Allowed\<close> and \<^verbatim>\<open>Insecure\<close> are \<^verbatim>\<open>*bool\<close>: \<open>None\<close> is the nil pointer.
  A nil slice and an empty slice are both the empty list.
\<close>

record registryConf =
  Location :: string
  Prefix :: string
  Mirrors :: "string list"
  Blocked :: "bool option"
  Allowed :: "bool option"
  Insecure :: "bool option"

record registriesConf =
  UnqualifiedSearchRegistries :: "string list"
  ShortNameMode :: string
  Registries :: "ref list"
  registriesMap :: "(string \<rightharpoonup> ref) option"

record policyEntry =
  Type :: string

text \<open>
  \<^verbatim>\<open>Transports\<close> is a map of maps. The code only reads the outer map and assigns it as a
  whole, so a nil outer map is the empty map here; an inner map that is nil or absent is
  \<open>None\<close>, and a write through it panics.
\<close>

record policyConf =
  Default :: "policyEntry list"
  Transports :: "string \<rightharpoonup> (string \<rightharpoonup> policyEntry list)"

text \<open>
  The syncer. \<open>heap\<close> and \<open>next_ref\<close> hold the \<^verbatim>\<open>registryConf\<close> objects the pointers
  refer to. \<open>ch\<close> counts the values the worker has taken from the channel \<^verbatim>\<open>ch\<close>.

  The channel has no buffer and the worker \<^verbatim>\<open>syncer\<close> is its only receiver. \<open>pending\<close>
  says where the worker is: \<open>False\<close> when it is at (or on its way back to) the receive,
  \<open>True\<close> when it has taken a value and has not finished the \<^verbatim>\<open>sync\<close> that the value
  triggers. The mutex \<^verbatim>\<open>mu\<close> makes each operation and each \<^verbatim>\<open>sync\<close> one step of the
  model.
\<close>

record SystemConfigSyncer =
  registriesConfContent :: registriesConf
  policyConfContent :: policyConf
  registryCertTuples :: "registryCertTuple list"
  heap :: "ref \<Rightarrow> registryConf"
  next_ref :: ref
  ch :: nat
  pending :: bool

subsection \<open>Folder names\<close>

text \<open>
  \<^verbatim>\<open>strings.Index(s, substr)\<close>: the index of the first instance of \<open>substr\<close> in \<open>s\<close>,
  \<open>None\<close> for Go's \<open>-1\<close>.
\<close>

fun Index :: "string \<Rightarrow> string \<Rightarrow> nat option" where
  "Index [] substr = (if substr = [] then Some 0 else None)"
| "Index (c # cs) substr =
     (if prefix substr (c # cs) then Some 0 else map_option Suc (Index cs substr))"

text \<open>
  \<^verbatim>\<open>strings.Replace(s, old, new, n)\<close> for \<open>n \<ge> 0\<close> and a non-empty \<open>old\<close>, the only way
  the package calls it: the first \<open>n\<close> non-overlapping instances of \<open>old\<close>, found from
  left to right, are replaced by \<open>new\<close>.
\<close>

fun replace_from :: "string \<Rightarrow> string \<Rightarrow> string \<Rightarrow> nat \<Rightarrow> string" where
  "replace_from s old new 0 = s"
| "replace_from s old new (Suc n) =
     (case Index s old of
        None \<Rightarrow> s
      | Some j \<Rightarrow> take j s @ new @ replace_from (drop (j + length old) s) old new n)"

definition Replace :: "string \<Rightarrow> string \<Rightarrow> string \<Rightarrow> nat \<Rightarrow> string" where
  "Replace s old new n = (if old = new \<or> n = 0 then s else replace_from s old new n)"

definition getFolderName :: "registryCertTuple \<Rightarrow> string" where
  "getFolderName t = Replace (registry t) ''..'' '':'' 1"

subsection \<open>registries.conf\<close>

definition defaultRegistriesConf :: registriesConf where
  "defaultRegistriesConf =
     \<lparr>UnqualifiedSearchRegistries = [''registry.access.redhat.com'', ''docker.io''],
      ShortNameMode = '''',
      Registries = [],
      registriesMap = None\<rparr>"

text \<open>\<^verbatim>\<open>&registryConf{Location: registry}\<close>: every other field has its zero value.\<close>

definition new_registryConf :: "string \<Rightarrow> registryConf" where
  "new_registryConf reg =
     \<lparr>Location = reg, Prefix = '''', Mirrors = [],
      Blocked = None, Allowed = None, Insecure = None\<rparr>"

text \<open>
  \<^verbatim>\<open>getRegistryConfOrCreate\<close> has a value receiver. Reading a nil map gives nil, so a new
  object is allocated; the assignment into the nil map then panics (\<open>None\<close> as the
  returned pointer). With a map, the new entry is stored through the shared reference;
  the \<^verbatim>\<open>append\<close> to \<^verbatim>\<open>rsc.Registries\<close> changes the receiver's copy of the slice header
  only, so the caller's \<open>Registries\<close> stays as it was.
\<close>

definition getRegistryConfOrCreate ::
  "string \<Rightarrow> SystemConfigSyncer \<Rightarrow> ref option \<times> SystemConfigSyncer" where
  "getRegistryConfOrCreate reg s =
     (let rsc = registriesConfContent s;
          found = (case registriesMap rsc of None \<Rightarrow> None | Some m \<Rightarrow> m reg)
      in case found of
           Some rc \<Rightarrow> (Some rc, s)
         | None \<Rightarrow>
             (let rc = next_ref s;
                  s' = s\<lparr>heap := (heap s)(rc := new_registryConf reg),
                         next_ref := Suc rc\<rparr>
              in case registriesMap rsc of
                   None \<Rightarrow> (None, s')
                 | Some m \<Rightarrow>
                     (let local = rsc\<lparr>registriesMap := Some (m(reg \<mapsto> rc)),
                                      Registries := Registries rsc @ [rc]\<rparr>
                      in (Some rc,
                          s'\<lparr>registriesConfContent :=
                               rsc\<lparr>registriesMap := registriesMap local\<rparr>\<rparr>))))"

definition getRegistryConf :: "string \<Rightarrow> SystemConfigSyncer \<Rightarrow> ref option" where
  "getRegistryConf reg s =
     (case registriesMap (registriesConfContent s) of
        None \<Rightarrow> None
      | Some m \<Rightarrow> m reg)"

subsection \<open>policy.json\<close>

definition insecureAcceptAnythingPolicyEntry :: policyEntry where
  "insecureAcceptAnythingPolicyEntry = \<lparr>Type = ''insecureAcceptAnything''\<rparr>"

definition rejectPolicyEntry :: policyEntry where
  "rejectPolicyEntry = \<lparr>Type = ''reject''\<rparr>"

definition defaultTransports :: "string \<rightharpoonup> (string \<rightharpoonup> policyEntry list)" where
  "defaultTransports =
     [dockerDaemonTransport \<mapsto> ['''' \<mapsto> [insecureAcceptAnythingPolicyEntry]],
      atomicTransport \<mapsto> Map.empty,
      dockerTransport \<mapsto> Map.empty]"

definition defaultPolicyConf :: policyConf where
  "defaultPolicyConf =
     \<lparr>Default = [insecureAcceptAnythingPolicyEntry], Transports = defaultTransports\<rparr>"

text \<open>
  \<^verbatim>\<open>resetTransports\<close> has a value receiver: the fresh default map is assigned to the
  copy \<open>local\<close>, and the caller's struct, which the function returns here, keeps its map.
\<close>

definition resetTransports :: "policyConf \<Rightarrow> policyConf" where
  "resetTransports pc = (let local = pc\<lparr>Transports := defaultTransports\<rparr> in pc)"

text \<open>
  \<^verbatim>\<open>setRejectForRegistryOnTransport\<close> writes through the map the copy shares with the
  caller, so the caller sees the rule.
\<close>

definition setRejectForRegistryOnTransport ::
  "string \<Rightarrow> string \<Rightarrow> policyConf \<Rightarrow> result \<times> policyConf" where
  "setRejectForRegistryOnTransport reg transport pc =
     (case Transports pc transport of
        None \<Rightarrow> (Panic nil_map_panic, pc)
      | Some rules \<Rightarrow>
          (Success,
           pc\<lparr>Transports := (Transports pc)(transport \<mapsto> rules(reg \<mapsto> [rejectPolicyEntry]))\<rparr>))"

definition setRejectForRegistry :: "string \<Rightarrow> policyConf \<Rightarrow> result \<times> policyConf" where
  "setRejectForRegistry reg pc =
     (case setRejectForRegistryOnTransport reg dockerTransport pc of
        (Success, pc') \<Rightarrow> setRejectForRegistryOnTransport reg atomicTransport pc'
      | (r, pc') \<Rightarrow> (r, pc'))"

subsection \<open>The syncer and its five mutation operations\<close>

definition newSystemConfigSyncer :: SystemConfigSyncer where
  "newSystemConfigSyncer =
     \<lparr>registriesConfContent = defaultRegistriesConf,
      policyConfContent = defaultPolicyConf,
      registryCertTuples = [],
      heap = (\<lambda>_. new_registryConf ''''),
      next_ref = 0,
      ch = 0,
      pending = False\<rparr>"

text \<open>
  \<^verbatim>\<open>s.ch <- true\<close>, made by an operation that holds \<^verbatim>\<open>mu\<close>. A worker at the receive
  takes the value. A worker that has taken a value before and has not finished its
  \<^verbatim>\<open>sync\<close> cannot be inside \<^verbatim>\<open>sync\<close>, which holds \<^verbatim>\<open>mu\<close>, so it is waiting for \<^verbatim>\<open>mu\<close>;
  the sender keeps \<^verbatim>\<open>mu\<close> until the send completes, so neither goes on and the send
  never completes.
\<close>

definition send :: "SystemConfigSyncer \<Rightarrow> result \<times> SystemConfigSyncer" where
  "send s =
     (if pending s then (Deadlock, s)
      else (Success, s\<lparr>ch := Suc (ch s), pending := True\<rparr>))"

text \<open>The loop that clears \<^verbatim>\<open>Allowed\<close>, \<^verbatim>\<open>Blocked\<close> and \<^verbatim>\<open>Insecure\<close> of every entry of \<^verbatim>\<open>Registries\<close>.\<close>

fun reset_loop :: "ref list \<Rightarrow> (ref \<Rightarrow> registryConf) \<Rightarrow> (ref \<Rightarrow> registryConf)" where
  "reset_loop [] h = h"
| "reset_loop (rc # rcs) h =
     reset_loop rcs (h(rc := (h rc)\<lparr>Blocked := None, Allowed := None, Insecure := None\<rparr>))"

fun allowed_loop :: "string list \<Rightarrow> SystemConfigSyncer \<Rightarrow> result \<times> SystemConfigSyncer" where
  "allowed_loop [] s = (Success, s)"
| "allowed_loop (reg # rest) s =
     (case getRegistryConfOrCreate reg s of
        (None, s') \<Rightarrow> (Panic nil_map_panic, s')
      | (Some rc, s') \<Rightarrow>
          allowed_loop rest
            (s'\<lparr>heap := (heap s')(rc := (heap s' rc)\<lparr>Blocked := None, Allowed := Some True\<rparr>)\<rparr>))"

fun blocked_loop :: "string list \<Rightarrow> SystemConfigSyncer \<Rightarrow> result \<times> SystemConfigSyncer" where
  "blocked_loop [] s = (Success, s)"
| "blocked_loop (reg # rest) s =
     (case getRegistryConfOrCreate reg s of
        (None, s') \<Rightarrow> (Panic nil_map_panic, s')
      | (Some rc, s') \<Rightarrow>
          (let s'' = s'\<lparr>heap := (heap s')(rc := (heap s' rc)\<lparr>Blocked := Some True, Allowed := None\<rparr>)\<rparr>
           in case setRejectForRegistry reg (policyConfContent s'') of
                (Success, pc) \<Rightarrow> blocked_loop rest (s''\<lparr>policyConfContent := pc\<rparr>)
              | (r, pc) \<Rightarrow> (r, s''\<lparr>policyConfContent := pc\<rparr>)))"

fun insecure_loop :: "string list \<Rightarrow> SystemConfigSyncer \<Rightarrow> result \<times> SystemConfigSyncer" where
  "insecure_loop [] s = (Success, s)"
| "insecure_loop (reg # rest) s =
     (case getRegistryConfOrCreate reg s of
        (None, s') \<Rightarrow> (Panic nil_map_panic, s')
      | (Some rc, s') \<Rightarrow>
          insecure_loop rest
            (s'\<lparr>heap := (heap s')(rc := (heap s' rc)\<lparr>Insecure := Some True\<rparr>)\<rparr>))"

definition StoreImageRegistryConf ::
  "string list \<Rightarrow> string list \<Rightarrow> string list \<Rightarrow> SystemConfigSyncer \<Rightarrow> result \<times> SystemConfigSyncer" where
  "StoreImageRegistryConf allowedRegistries blockedRegistries insecureRegistries s =
     (if allowedRegistries \<noteq> [] \<and> blockedRegistries \<noteq> [] then (Failure InvalidArgument, s)
      else
        let s1 = s\<lparr>heap := reset_loop (Registries (registriesConfContent s)) (heap s)\<rparr>;
            s2 = s1\<lparr>policyConfContent := resetTransports (policyConfContent s1)\<rparr>
        in case allowed_loop allowedRegistries s2 of
             (Success, s3) \<Rightarrow>
               (case blocked_loop blockedRegistries s3 of
                  (Success, s4) \<Rightarrow>
                    (case insecure_loop insecureRegistries s4 of
                       (Success, s5) \<Rightarrow> send s5
                     | (r, s5) \<Rightarrow> (r, s5))
                | (r, s4) \<Rightarrow> (r, s4))
           | (r, s3) \<Rightarrow> (r, s3))"

definition StoreRegistryCerts ::
  "registryCertTuple list \<Rightarrow> SystemConfigSyncer \<Rightarrow> result \<times> SystemConfigSyncer" where
  "StoreRegistryCerts tuples s =
     send (s\<lparr>registryCertTuples := tuples\<rparr>)"

definition UpdateRegistryMirroringConfig ::
  "string \<Rightarrow> string list \<Rightarrow> SystemConfigSyncer \<Rightarrow> result \<times> SystemConfigSyncer" where
  "UpdateRegistryMirroringConfig reg mirrors s =
     (case getRegistryConfOrCreate reg s of
        (None, s') \<Rightarrow> (Panic nil_map_panic, s')
      | (Some rc, s') \<Rightarrow>
          send (s'\<lparr>heap := (heap s')(rc := (heap s' rc)\<lparr>Mirrors := mirrors\<rparr>)\<rparr>))"

definition DeleteRegistryMirroringConfig ::
  "string \<Rightarrow> SystemConfigSyncer \<Rightarrow> result \<times> SystemConfigSyncer" where
  "DeleteRegistryMirroringConfig reg s =
     (case getRegistryConf reg s of
        Some rc \<Rightarrow>
          send (s\<lparr>heap := (heap s)(rc := (heap s rc)\<lparr>Mirrors := []\<rparr>)\<rparr>)
      | None \<Rightarrow> (Failure (NotFound reg), s))"

fun mirrors_loop :: "ref list \<Rightarrow> (ref \<Rightarrow> registryConf) \<Rightarrow> (ref \<Rightarrow> registryConf)" where
  "mirrors_loop [] h = h"
| "mirrors_loop (rc # rcs) h = mirrors_loop rcs (h(rc := (h rc)\<lparr>Mirrors := []\<rparr>))"

definition CleanupRegistryMirroringConfig ::
  "SystemConfigSyncer \<Rightarrow> result \<times> SystemConfigSyncer" where
  "CleanupRegistryMirroringConfig s =
     send (s\<lparr>heap := mirrors_loop (Registries (registriesConfContent s)) (heap s)\<rparr>)"

subsection \<open>Reachable states\<close>

text \<open>
  The states the process can be in: the state \<^verbatim>\<open>newSystemConfigSyncer\<close> builds; every
  state one of the five operations leaves behind when it returns or panics (a recovered
  panic leaves the state as it was at the panic); and the state after the worker has
  finished the pass for the value it took, which changes nothing but \<open>pending\<close>. A call
  that blocks in the send keeps \<^verbatim>\<open>mu\<close> for ever, so nothing follows it.
\<close>

inductive reachable :: "SystemConfigSyncer \<Rightarrow> bool" where
  reachable_new: "reachable newSystemConfigSyncer"
| reachable_StoreImageRegistryConf:
    "reachable s \<Longrightarrow> fst (StoreImageRegistryConf allowed blocked insecure s) \<noteq> Deadlock \<Longrightarrow>
     reachable (snd (StoreImageRegistryConf allowed blocked insecure s))"
| reachable_StoreRegistryCerts:
    "reachable s \<Longrightarrow> fst (StoreRegistryCerts tuples s) \<noteq> Deadlock \<Longrightarrow>
     reachable (snd (StoreRegistryCerts tuples s))"
| reachable_UpdateRegistryMirroringConfig:
    "reachable s \<Longrightarrow> fst (UpdateRegistryMirroringConfig reg mirrors s) \<noteq> Deadlock \<Longrightarrow>
     reachable (snd (UpdateRegistryMirroringConfig reg mirrors s))"
| reachable_DeleteRegistryMirroringConfig:
    "reachable s \<Longrightarrow> fst (DeleteRegistryMirroringConfig reg s) \<noteq> Deadlock \<Longrightarrow>
     reachable (snd (DeleteRegistryMirroringConfig reg s))"
| reachable_CleanupRegistryMirroringConfig:
    "reachable s \<Longrightarrow> fst (CleanupRegistryMirroringConfig s) \<noteq> Deadlock \<Longrightarrow>
     reachable (snd (CleanupRegistryMirroringConfig s))"
| reachable_syncer:
    "reachable s \<Longrightarrow> pending s \<Longrightarrow> reachable (s\<lparr>pending := False\<rparr>)"


text \<open>A rule of type \<^verbatim>\<open>reject\<close> is listed for the registry on the transport.\<close>

definition has_reject :: "SystemConfigSyncer \<Rightarrow> string \<Rightarrow> string \<Rightarrow> bool" where
  "has_reject s transport reg =
     (case Transports (policyConfContent s) transport of
        None \<Rightarrow> False
      | Some rules \<Rightarrow>
          (case rules reg of None \<Rightarrow> False | Some entries \<Rightarrow> rejectPolicyEntry \<in> set entries))"



subsection \<open>The persistence pass\<close>

text \<open>
  The operating system and the two encoders are outside the package. They are taken as
  parameters that act on a file-system state \<open>'fs\<close> and return Go's \<^verbatim>\<open>error\<close>
  (\<open>None\<close> for nil) with the new state; a failing call may leave any state behind.
  \<open>os_Stat_IsNotExist\<close> is \<^verbatim>\<open>os.IsNotExist(err)\<close> for the error of \<^verbatim>\<open>os.Stat\<close>. The calls
  on an open file carry the path the file was created with.
\<close>

record 'fs os =
  filepath_Dir :: "string \<Rightarrow> string"
  os_Stat_IsNotExist :: "string \<Rightarrow> 'fs \<Rightarrow> bool"
  os_MkdirAll :: "string \<Rightarrow> 'fs \<Rightarrow> string option \<times> 'fs"
  os_Create :: "string \<Rightarrow> 'fs \<Rightarrow> string option \<times> 'fs"
  os_RemoveAll :: "string \<Rightarrow> 'fs \<Rightarrow> string option \<times> 'fs"
  file_WriteString :: "string \<Rightarrow> string \<Rightarrow> 'fs \<Rightarrow> string option \<times> 'fs"
  file_Close :: "string \<Rightarrow> 'fs \<Rightarrow> 'fs"
  toml_Encode :: "string \<Rightarrow> registriesConf \<Rightarrow> (ref \<Rightarrow> registryConf) \<Rightarrow> 'fs \<Rightarrow> string option \<times> 'fs"
  json_Encode :: "string \<Rightarrow> policyConf \<Rightarrow> 'fs \<Rightarrow> string option \<times> 'fs"

text \<open>\<^verbatim>\<open>createBaseDir\<close> drops the error of \<^verbatim>\<open>os.MkdirAll\<close>.\<close>

definition createBaseDir :: "'fs os \<Rightarrow> string \<Rightarrow> 'fs \<Rightarrow> 'fs" where
  "createBaseDir sys path fs =
     (let baseDir = filepath_Dir sys path
      in if os_Stat_IsNotExist sys baseDir fs then snd (os_MkdirAll sys baseDir fs) else fs)"

definition writeTomlFile ::
  "'fs os \<Rightarrow> string \<Rightarrow> registriesConf \<Rightarrow> (ref \<Rightarrow> registryConf) \<Rightarrow> 'fs \<Rightarrow> string option \<times> 'fs" where
  "writeTomlFile sys path data h fs =
     (case os_Create sys path (createBaseDir sys path fs) of
        (Some err, fs') \<Rightarrow> (Some err, fs')
      | (None, fs') \<Rightarrow>
          (case toml_Encode sys path data h fs' of (e, fs'') \<Rightarrow> (e, file_Close sys path fs'')))"

definition writeJSONFile ::
  "'fs os \<Rightarrow> string \<Rightarrow> policyConf \<Rightarrow> 'fs \<Rightarrow> string option \<times> 'fs" where
  "writeJSONFile sys path data fs =
     (case os_Create sys path (createBaseDir sys path fs) of
        (Some err, fs') \<Rightarrow> (Some err, fs')
      | (None, fs') \<Rightarrow>
          (case json_Encode sys path data fs' of (e, fs'') \<Rightarrow> (e, file_Close sys path fs'')))"

definition registriesConf_writeToFile ::
  "'fs os \<Rightarrow> registriesConf \<Rightarrow> (ref \<Rightarrow> registryConf) \<Rightarrow> 'fs \<Rightarrow> string option \<times> 'fs" where
  "registriesConf_writeToFile sys rsc h = writeTomlFile sys RegistriesConfPath rsc h"

definition policyConf_writeToFile ::
  "'fs os \<Rightarrow> policyConf \<Rightarrow> 'fs \<Rightarrow> string option \<times> 'fs" where
  "policyConf_writeToFile sys pc = writeJSONFile sys PolicyConfPath pc"

definition registryCertTuple_writeToFile ::
  "'fs os \<Rightarrow> registryCertTuple \<Rightarrow> 'fs \<Rightarrow> string option \<times> 'fs" where
  "registryCertTuple_writeToFile sys t fs =
     (let absoluteFolderPath = DockerCertsDir @ ''/'' @ getFolderName t;
          made = (if os_Stat_IsNotExist sys absoluteFolderPath fs
                  then os_MkdirAll sys absoluteFolderPath fs else (None, fs))
      in case made of
           (Some err, fs1) \<Rightarrow> (Some err, fs1)
         | (None, fs1) \<Rightarrow>
             (let absoluteFilePath = DockerCertsDir @ ''/'' @ getFolderName t @ ''/ca.crt''
              in case os_Create sys absoluteFilePath fs1 of
                   (Some err, fs2) \<Rightarrow> (Some err, fs2)
                 | (None, fs2) \<Rightarrow>
                     (case file_WriteString sys absoluteFilePath (cert t) fs2 of
                        (e, fs3) \<Rightarrow> (e, file_Close sys absoluteFilePath fs3))))"

text \<open>The loop of \<^verbatim>\<open>sync\<close> over the certificate tuples: the first error ends it.\<close>

fun tuples_loop :: "'fs os \<Rightarrow> registryCertTuple list \<Rightarrow> 'fs \<Rightarrow> string option \<times> 'fs" where
  "tuples_loop sys [] fs = (None, fs)"
| "tuples_loop sys (tuple # rest) fs =
     (case registryCertTuple_writeToFile sys tuple fs of
        (Some err, fs') \<Rightarrow> (Some err, fs')
      | (None, fs') \<Rightarrow> tuples_loop sys rest fs')"

text \<open>\<^verbatim>\<open>sync\<close> returns its error, the syncer as it leaves it, and the file system.\<close>

definition sync ::
  "'fs os \<Rightarrow> SystemConfigSyncer \<Rightarrow> 'fs \<Rightarrow> string option \<times> SystemConfigSyncer \<times> 'fs" where
  "sync sys s fs =
     (case registriesConf_writeToFile sys (registriesConfContent s) (heap s) fs of
        (Some err, fs1) \<Rightarrow> (Some err, s, fs1)
      | (None, fs1) \<Rightarrow>
          (case policyConf_writeToFile sys (policyConfContent s) fs1 of
             (Some err, fs2) \<Rightarrow> (Some err, s, fs2)
           | (None, fs2) \<Rightarrow>
               (case os_RemoveAll sys DockerCertsDir fs2 of
                  (Some err, fs3) \<Rightarrow> (Some err, s, fs3)
                | (None, fs3) \<Rightarrow>
                    (case tuples_loop sys (registryCertTuples s) fs3 of
                       (e, fs4) \<Rightarrow> (e, s, fs4)))))"

text \<open>
  One turn of the loop of \<^verbatim>\<open>syncer\<close> after the receive: the pass, whose error is only
  logged, and back to the receive.
\<close>

definition syncer ::
  "'fs os \<Rightarrow> SystemConfigSyncer \<Rightarrow> 'fs \<Rightarrow> SystemConfigSyncer \<times> 'fs" where
  "syncer sys s fs =
     (case sync sys s fs of (err, s', fs') \<Rightarrow> (s'\<lparr>pending := False\<rparr>, fs'))"







section \<open>Properties\<close>

subsection \<open>Folder names\<close>

lemma Index_no_occurrence:
  "\<not> (\<exists>p q. s = p @ old @ q) \<Longrightarrow> Index s old = None"
proof (induction s)
  case Nil
  then show ?case by auto
next
  case (Cons c cs)
  have np: "\<not> prefix old (c # cs)"
    using Cons.prems by (metis append_Nil prefix_def)
  have "\<not> (\<exists>p q. cs = p @ old @ q)"
    using Cons.prems by (metis append_Cons)
  with Cons.IH np show ?case by simp
qed

lemma Index_occurrence: "Index (p @ old @ q) old \<noteq> None"
proof (induction p)
  case Nil
  show ?case
  proof (cases "old @ q")
    case Nil
    then show ?thesis by simp
  next
    case (Cons a list)
    have "prefix old (old @ q)" by simp
    with Cons show ?thesis by simp
  qed
next
  case (Cons c p)
  then show ?case by simp
qed

lemma no_occurrence_iff: "(\<not> (\<exists>p q. s = p @ old @ q)) \<longleftrightarrow> Index s old = None"
  using Index_occurrence Index_no_occurrence by metis

lemma dotdot_not_prefix:
  assumes "\<not> (\<exists>u v. (c # p) @ ''.'' = u @ ''..'' @ v)"
  shows "\<not> prefix ''..'' (c # p @ ''..'' @ q)"
proof
  assume pre: "prefix ''..'' (c # p @ ''..'' @ q)"
  then have c: "c = CHR ''.''" by auto
  show False
  proof (cases p)
    case Nil
    with c have "(c # p) @ ''.'' = [] @ ''..'' @ []" by simp
    with assms show False by blast
  next
    case (Cons d p')
    with pre have "d = CHR ''.''" by auto
    with c Cons have "(c # p) @ ''.'' = [] @ ''..'' @ (p' @ ''.'')" by simp
    with assms show False by blast
  qed
qed

lemma Index_first_dotdot:
  "\<not> (\<exists>u v. p @ ''.'' = u @ ''..'' @ v) \<Longrightarrow> Index (p @ ''..'' @ q) ''..'' = Some (length p)"
proof (induction p)
  case Nil
  then show ?case by simp
next
  case (Cons c p)
  have np: "\<not> prefix ''..'' (c # p @ ''..'' @ q)"
    using Cons.prems by (rule dotdot_not_prefix)
  have "\<not> (\<exists>u v. p @ ''.'' = u @ ''..'' @ v)"
  proof
    assume "\<exists>u v. p @ ''.'' = u @ ''..'' @ v"
    then obtain u v where "p @ ''.'' = u @ ''..'' @ v" by blast
    then have "(c # p) @ ''.'' = (c # u) @ ''..'' @ v" by simp
    with Cons.prems show False by blast
  qed
  with Cons.IH np show ?case by simp
qed

text \<open>
  C8. \<^verbatim>\<open>getFolderName\<close> depends on the registry name alone. A name without the two
  characters \<open>..\<close> is returned as it is. Where \<open>..\<close> occurs, the name splits as
  \<open>p @ ''..'' @ q\<close> with no occurrence beginning inside \<open>p\<close> (none in \<open>p\<close> followed by one
  dot), and the result is \<open>p @ '':'' @ q\<close>: the first occurrence becomes a colon, and every
  character before and after it is kept. In particular \<open>docker.io..5000\<close> gives
  \<open>docker.io:5000\<close> and \<open>docker.io\<close> gives \<open>docker.io\<close>.
\<close>

theorem getFolderName_first_dotdot:
  "(\<not> (\<exists>p q. registry t = p @ ''..'' @ q) \<longrightarrow> getFolderName t = registry t) \<and>
   (\<forall>p q. registry t = p @ ''..'' @ q \<and> \<not> (\<exists>u v. p @ ''.'' = u @ ''..'' @ v)
       \<longrightarrow> getFolderName t = p @ '':'' @ q) \<and>
   getFolderName \<lparr>registry = ''docker.io..5000'', cert = c\<rparr> = ''docker.io:5000'' \<and>
   getFolderName \<lparr>registry = ''docker.io'', cert = c\<rparr> = ''docker.io''"
proof (intro conjI impI allI)
  assume "\<not> (\<exists>p q. registry t = p @ ''..'' @ q)"
  then have "Index (registry t) ''..'' = None" by (rule Index_no_occurrence)
  then show "getFolderName t = registry t" by (simp add: getFolderName_def Replace_def)
next
  fix p q
  assume a: "registry t = p @ ''..'' @ q \<and> \<not> (\<exists>u v. p @ ''.'' = u @ ''..'' @ v)"
  then have "Index (registry t) ''..'' = Some (length p)"
    using Index_first_dotdot [of p q] by simp
  with a show "getFolderName t = p @ '':'' @ q"
    by (simp add: getFolderName_def Replace_def)
next
  show "getFolderName \<lparr>registry = ''docker.io..5000'', cert = c\<rparr> = ''docker.io:5000''"
    by (simp add: getFolderName_def Replace_def)
next
  show "getFolderName \<lparr>registry = ''docker.io'', cert = c\<rparr> = ''docker.io''"
    by (simp add: getFolderName_def Replace_def)
qed

theorem getFolderName_first_dotdot_witness:
  "getFolderName \<lparr>registry = ''quay.io'', cert = ''PEM''\<rparr> = ''quay.io'' \<and>
   getFolderName \<lparr>registry = ''a...b..c'', cert = ''PEM''\<rparr> = ''a:.b..c''"
proof -
  have h1: "\<not> (\<exists>p q. ''quay.io'' = p @ ''..'' @ q)"
    unfolding no_occurrence_iff by simp
  have h2: "\<not> (\<exists>u v. ''a'' @ ''.'' = u @ ''..'' @ v)"
    unfolding no_occurrence_iff by simp
  have r1: "getFolderName \<lparr>registry = ''quay.io'', cert = ''PEM''\<rparr> = ''quay.io''"
    using getFolderName_first_dotdot
      [of "\<lparr>registry = ''quay.io'', cert = ''PEM''\<rparr>", THEN conjunct1] h1
    by simp
  have r2: "getFolderName \<lparr>registry = ''a...b..c'', cert = ''PEM''\<rparr> = ''a'' @ '':'' @ ''.b..c''"
  proof -
    have h4: "registry \<lparr>registry = ''a...b..c'', cert = ''PEM''\<rparr> = ''a'' @ ''..'' @ ''.b..c''"
      by simp
    show ?thesis
      by (rule getFolderName_first_dotdot
          [of "\<lparr>registry = ''a...b..c'', cert = ''PEM''\<rparr>",
           THEN conjunct2, THEN conjunct1, rule_format, of "''a''" "''.b..c''",
           OF conjI [OF h4 h2]])
  qed
  show ?thesis using r1 r2 by simp
qed

subsection \<open>The nil index\<close>

text \<open>
  \<^verbatim>\<open>defaultRegistriesConf\<close> leaves \<^verbatim>\<open>registriesMap\<close> nil and nothing assigns the field, so
  every lookup finds nothing and every creation panics.
\<close>

lemma resetTransports_id: "resetTransports pc = pc"
  by (simp add: resetTransports_def)

lemma send_no_Failure: "send s \<noteq> (Failure msg, s')"
  by (simp add: send_def)

lemma getRegistryConfOrCreate_keeps_Registries:
  "Registries (registriesConfContent (snd (getRegistryConfOrCreate reg s)))
     = Registries (registriesConfContent s)"
  by (simp add: getRegistryConfOrCreate_def Let_def split: option.splits)

lemma getRegistryConfOrCreate_nil_map:
  "registriesMap (registriesConfContent s) = None \<Longrightarrow>
   getRegistryConfOrCreate reg s =
     (None, s\<lparr>heap := (heap s)(next_ref s := new_registryConf reg), next_ref := Suc (next_ref s)\<rparr>)"
  by (simp add: getRegistryConfOrCreate_def Let_def)

lemma allowed_loop_nil_map:
  "registriesMap (registriesConfContent s) = None \<Longrightarrow>
   allowed_loop regs s =
     (if regs = [] then (Success, s)
      else (Panic nil_map_panic,
            s\<lparr>heap := (heap s)(next_ref s := new_registryConf (hd regs)), next_ref := Suc (next_ref s)\<rparr>))"
  by (cases regs) (simp_all add: getRegistryConfOrCreate_nil_map)

lemma blocked_loop_nil_map:
  "registriesMap (registriesConfContent s) = None \<Longrightarrow>
   blocked_loop regs s =
     (if regs = [] then (Success, s)
      else (Panic nil_map_panic,
            s\<lparr>heap := (heap s)(next_ref s := new_registryConf (hd regs)), next_ref := Suc (next_ref s)\<rparr>))"
  by (cases regs) (simp_all add: getRegistryConfOrCreate_nil_map)

lemma insecure_loop_nil_map:
  "registriesMap (registriesConfContent s) = None \<Longrightarrow>
   insecure_loop regs s =
     (if regs = [] then (Success, s)
      else (Panic nil_map_panic,
            s\<lparr>heap := (heap s)(next_ref s := new_registryConf (hd regs)), next_ref := Suc (next_ref s)\<rparr>))"
  by (cases regs) (simp_all add: getRegistryConfOrCreate_nil_map)

lemma StoreImageRegistryConf_nil_map:
  assumes "registriesMap (registriesConfContent s) = None"
  shows "registriesConfContent (snd (StoreImageRegistryConf a b i s)) = registriesConfContent s"
    and "policyConfContent (snd (StoreImageRegistryConf a b i s)) = policyConfContent s"
    and "fst (StoreImageRegistryConf a b i s) =
           (if a \<noteq> [] \<and> b \<noteq> [] then Failure InvalidArgument
            else if a \<noteq> [] \<or> b \<noteq> [] \<or> i \<noteq> [] then Panic nil_map_panic
            else if pending s then Deadlock else Success)"
  using assms
  by (simp_all add: StoreImageRegistryConf_def Let_def resetTransports_id send_def
      allowed_loop_nil_map blocked_loop_nil_map insecure_loop_nil_map)

lemma UpdateRegistryMirroringConfig_nil_map:
  assumes "registriesMap (registriesConfContent s) = None"
  shows "registriesConfContent (snd (UpdateRegistryMirroringConfig reg ms s)) = registriesConfContent s"
    and "policyConfContent (snd (UpdateRegistryMirroringConfig reg ms s)) = policyConfContent s"
    and "fst (UpdateRegistryMirroringConfig reg ms s) = Panic nil_map_panic"
  using assms
  by (simp_all add: UpdateRegistryMirroringConfig_def getRegistryConfOrCreate_nil_map)

lemma DeleteRegistryMirroringConfig_nil_map:
  assumes "registriesMap (registriesConfContent s) = None"
  shows "DeleteRegistryMirroringConfig reg s = (Failure (NotFound reg), s)"
  using assms
  by (simp add: DeleteRegistryMirroringConfig_def getRegistryConf_def)

lemma reachable_invariant:
  "reachable s \<Longrightarrow>
     registriesMap (registriesConfContent s) = None \<and>
     Registries (registriesConfContent s) = [] \<and>
     Transports (policyConfContent s) = defaultTransports"
proof (induction rule: reachable.induct)
  case reachable_new
  show ?case
    by (simp add: newSystemConfigSyncer_def defaultRegistriesConf_def defaultPolicyConf_def)
next
  case (reachable_StoreImageRegistryConf s allowed blocked insecure)
  then show ?case by (simp add: StoreImageRegistryConf_nil_map)
next
  case (reachable_StoreRegistryCerts s tuples)
  then show ?case by (simp add: StoreRegistryCerts_def send_def)
next
  case (reachable_UpdateRegistryMirroringConfig s reg mirrors)
  then show ?case by (simp add: UpdateRegistryMirroringConfig_nil_map)
next
  case (reachable_DeleteRegistryMirroringConfig s reg)
  then show ?case by (simp add: DeleteRegistryMirroringConfig_nil_map)
next
  case (reachable_CleanupRegistryMirroringConfig s)
  then show ?case by (simp add: CleanupRegistryMirroringConfig_def send_def)
next
  case (reachable_syncer s)
  then show ?case by simp
qed

text \<open>What the two creating operations do in every reachable state.\<close>

lemma StoreImageRegistryConf_reachable:
  "reachable s \<Longrightarrow>
   fst (StoreImageRegistryConf a b i s) =
     (if a \<noteq> [] \<and> b \<noteq> [] then Failure InvalidArgument
      else if a \<noteq> [] \<or> b \<noteq> [] \<or> i \<noteq> [] then Panic nil_map_panic
      else if pending s then Deadlock else Success)"
  using reachable_invariant [of s] by (simp add: StoreImageRegistryConf_nil_map)


subsection \<open>Registry policy\<close>

text \<open>
  C1. The specification has \<^verbatim>\<open>StoreImageRegistryConf\<close>, for disjoint allowed and blocked
  names, create the entries that are missing, mark every allowed, blocked and insecure
  registry and add reject rules for the blocked ones. On the syncer as
  \<^verbatim>\<open>newSystemConfigSyncer\<close> builds it the code does not get that far: allowing
  \<open>quay.io\<close> panics on the assignment into the nil index and leaves no entry for it, and
  blocking \<open>quay.io\<close> panics before \<^verbatim>\<open>setRejectForRegistry\<close> is reached, so no reject
  rule is added.
\<close>

theorem StoreImageRegistryConf_panics_on_new_syncer:
  "fst (StoreImageRegistryConf [''quay.io''] [] [] newSystemConfigSyncer) = Panic nil_map_panic \<and>
   getRegistryConf ''quay.io''
     (snd (StoreImageRegistryConf [''quay.io''] [] [] newSystemConfigSyncer)) = None \<and>
   fst (StoreImageRegistryConf [] [''quay.io''] [] newSystemConfigSyncer) = Panic nil_map_panic \<and>
   \<not> has_reject (snd (StoreImageRegistryConf [] [''quay.io''] [] newSystemConfigSyncer))
        dockerTransport ''quay.io''"
  by (simp add: StoreImageRegistryConf_def Let_def resetTransports_def newSystemConfigSyncer_def
      defaultRegistriesConf_def defaultPolicyConf_def getRegistryConfOrCreate_def
      getRegistryConf_def has_reject_def defaultTransports_def dockerTransport_def
      atomicTransport_def dockerDaemonTransport_def)



text \<open>
  Past the first check, \<^verbatim>\<open>StoreImageRegistryConf\<close> returns nil, panics or waits in the
  send; it builds no error.
\<close>

lemma setRejectForRegistryOnTransport_no_Failure:
  "setRejectForRegistryOnTransport reg transport pc \<noteq> (Failure msg, pc')"
  by (simp add: setRejectForRegistryOnTransport_def split: option.splits)

lemma setRejectForRegistry_no_Failure:
  "setRejectForRegistry reg pc \<noteq> (Failure msg, pc')"
  by (auto simp: setRejectForRegistry_def setRejectForRegistryOnTransport_no_Failure
      split: prod.splits result.splits)

lemma allowed_loop_no_Failure: "allowed_loop regs s \<noteq> (Failure msg, s')"
  by (induction regs arbitrary: s) (auto split: prod.splits option.splits)

lemma blocked_loop_no_Failure: "blocked_loop regs s \<noteq> (Failure msg, s')"
  by (induction regs arbitrary: s)
     (auto simp: Let_def setRejectForRegistry_no_Failure
        split: prod.splits option.splits result.splits)

lemma insecure_loop_no_Failure: "insecure_loop regs s \<noteq> (Failure msg, s')"
  by (induction regs arbitrary: s) (auto split: prod.splits option.splits)

lemma StoreImageRegistryConf_no_other_Failure:
  assumes "allowed = [] \<or> blocked = []"
  shows "fst (StoreImageRegistryConf allowed blocked insecure s) \<noteq> Failure msg"
proof -
  have c: "\<not> (allowed \<noteq> [] \<and> blocked \<noteq> [])"
    using assms by blast
  show ?thesis
    unfolding StoreImageRegistryConf_def Let_def if_not_P [OF c]
    by (auto simp: allowed_loop_no_Failure blocked_loop_no_Failure insecure_loop_no_Failure
        send_def split: prod.splits result.splits)
qed

text \<open>
  C5. \<^verbatim>\<open>StoreImageRegistryConf\<close> returns the error the specification calls
  InvalidArgument exactly when both the allowed and the blocked list are non-empty, and
  then the syncer is left as it was.
\<close>

theorem StoreImageRegistryConf_InvalidArgument:
  "(fst (StoreImageRegistryConf allowed blocked insecure s) = Failure InvalidArgument
      \<longleftrightarrow> allowed \<noteq> [] \<and> blocked \<noteq> []) \<and>
   (allowed \<noteq> [] \<and> blocked \<noteq> [] \<longrightarrow>
      snd (StoreImageRegistryConf allowed blocked insecure s) = s)"
proof (cases "allowed \<noteq> [] \<and> blocked \<noteq> []")
  case True
  then show ?thesis by (simp add: StoreImageRegistryConf_def)
next
  case False
  then show ?thesis
    using StoreImageRegistryConf_no_other_Failure [of allowed blocked insecure s InvalidArgument]
    by blast
qed

theorem StoreImageRegistryConf_InvalidArgument_witness:
  "fst (StoreImageRegistryConf [''quay.io''] [''docker.io''] [] newSystemConfigSyncer)
     = Failure InvalidArgument \<and>
   snd (StoreImageRegistryConf [''quay.io''] [''docker.io''] [] newSystemConfigSyncer)
     = newSystemConfigSyncer"
  using StoreImageRegistryConf_InvalidArgument
    [of "[''quay.io'']" "[''docker.io'']" "[]" newSystemConfigSyncer]
  by simp

subsection \<open>Mirrors and certificates\<close>

text \<open>
  C4. The specification has \<^verbatim>\<open>UpdateRegistryMirroringConfig\<close> succeed for every registry
  and create the entry when it is missing, also on the syncer as it is first built. On
  that syncer the call for \<open>quay.io\<close> panics on the assignment into the nil index, and
  the index holds no entry for \<open>quay.io\<close> afterwards.
\<close>

theorem UpdateRegistryMirroringConfig_panics_on_new_syncer:
  "fst (UpdateRegistryMirroringConfig ''quay.io'' [''mirror.example.com''] newSystemConfigSyncer)
     = Panic nil_map_panic \<and>
   getRegistryConf ''quay.io''
     (snd (UpdateRegistryMirroringConfig ''quay.io'' [''mirror.example.com''] newSystemConfigSyncer))
     = None"
  by (simp add: UpdateRegistryMirroringConfig_def newSystemConfigSyncer_def
      defaultRegistriesConf_def getRegistryConfOrCreate_def getRegistryConf_def)

text \<open>
  What \<^verbatim>\<open>DeleteRegistryMirroringConfig\<close> does by itself: the error the specification
  calls NotFound exactly when the index has no entry for the location, the syncer then
  left as it was; otherwise the entry's mirror list is emptied, and the call returns nil
  unless it waits in the send.
\<close>

lemma DeleteRegistryMirroringConfig_cases:
  "(fst (DeleteRegistryMirroringConfig reg s) = Failure (NotFound reg)
      \<longleftrightarrow> getRegistryConf reg s = None) \<and>
   (getRegistryConf reg s = None \<longrightarrow> snd (DeleteRegistryMirroringConfig reg s) = s) \<and>
   (\<forall>rc. getRegistryConf reg s = Some rc \<longrightarrow>
      fst (DeleteRegistryMirroringConfig reg s) = (if pending s then Deadlock else Success) \<and>
      Mirrors (heap (snd (DeleteRegistryMirroringConfig reg s)) rc) = [])"
  by (auto simp: DeleteRegistryMirroringConfig_def send_def split: option.splits)

text \<open>
  C6. The specification has \<^verbatim>\<open>UpdateRegistryMirroringConfig\<close> for a registry, followed
  by \<^verbatim>\<open>DeleteRegistryMirroringConfig\<close> for the same registry, leave that registry with an
  empty mirror list. On the syncer as it is first built the first call panics, and the
  second one, run on the state the panic leaves, returns the NotFound error: no entry for
  the registry exists.
\<close>

theorem mirrors_round_trip_on_new_syncer:
  "fst (UpdateRegistryMirroringConfig ''quay.io'' [''mirror.example.com''] newSystemConfigSyncer)
     = Panic nil_map_panic \<and>
   fst (DeleteRegistryMirroringConfig ''quay.io''
     (snd (UpdateRegistryMirroringConfig ''quay.io'' [''mirror.example.com''] newSystemConfigSyncer)))
     = Failure (NotFound ''quay.io'')"
  by (simp add: UpdateRegistryMirroringConfig_def DeleteRegistryMirroringConfig_def
      newSystemConfigSyncer_def
      defaultRegistriesConf_def getRegistryConfOrCreate_def getRegistryConf_def)

subsection \<open>The send under the mutex\<close>

lemma syncer_clears_pending: "fst (syncer sys s fs) = s\<lparr>pending := False\<rparr>"
  by (simp add: syncer_def sync_def split: prod.splits option.splits)




subsection \<open>The persistence pass\<close>













end
